theory Spec2Isabelle
  imports Main "HOL-Library.AList"
begin

section \<open>The Python environment of itemclassloader.py\<close>

text \<open>
  The values the loader handles are Python objects. What the code asks of an object is
  whether it is a class (\<open>inspect.isclass\<close>), whether that class derives from scrapy's
  \<open>Item\<close> (\<open>issubclass(obj, Item)\<close>), its \<open>__name__\<close> and \<open>__module__\<close>, and its truth
  value. \<open>PyNone\<close> is Python's \<open>None\<close>, what a function returns when it returns nothing.
  A class object is truthy (the default for a class: scrapy's item metaclass defines neither
  \<open>__bool__\<close> nor \<open>__len__\<close>); any other object carries its truth value.
\<close>

datatype pyobj =
    PyNone
  | PyClass (cls_id: nat) (cls_name: string) (cls_module: string) (cls_is_item: bool)
  | PyOther (oth_id: nat) (oth_truthy: bool)

fun isclass :: "pyobj \<Rightarrow> bool" where
  "isclass (PyClass i n m b) = True"
| "isclass _ = False"

fun issubclass_Item :: "pyobj \<Rightarrow> bool" where
  "issubclass_Item (PyClass i n m b) = b"
| "issubclass_Item _ = False"

fun truthy :: "pyobj \<Rightarrow> bool" where
  "truthy PyNone = False"
| "truthy (PyClass i n m b) = True"
| "truthy (PyOther i t) = t"

text \<open>A name argument is a string or absent (\<open>None\<close>); \<open>not name\<close> holds of both
  \<open>None\<close> and the empty string.\<close>

fun name_truthy :: "string option \<Rightarrow> bool" where
  "name_truthy None = False"
| "name_truthy (Some s) = (s \<noteq> [])"

text \<open>A module object: its \<open>__name__\<close> and its namespace \<open>vars(module)\<close>, in insertion
  order. \<open>getattr\<close> on a module looks the namespace up; \<open>None\<close> is AttributeError.\<close>

record pymodule =
  mod_name :: string
  mod_vars :: "(string \<times> pyobj) list"

definition getattr :: "pymodule \<Rightarrow> string \<Rightarrow> pyobj option" where
  "getattr md n = map_of (mod_vars md) n"

text \<open>The exceptions that can reach the code. \<open>ModuleNotFoundError\<close> is a subclass of
  \<open>ImportError\<close>, so \<open>except ImportError\<close> catches both. \<open>SystemExit\<close>,
  \<open>KeyboardInterrupt\<close> and \<open>GeneratorExit\<close> derive from \<open>BaseException\<close> and not from
  \<open>Exception\<close>: the top-level code of an imported module can raise them, and
  \<open>except Exception\<close> does not catch them. \<open>OtherError\<close> stands for any other subclass
  of \<open>Exception\<close>.\<close>

datatype exn =
    ImportError
  | ModuleNotFoundError
  | AttributeError
  | ValueError
  | TypeError
  | RuntimeWarning
  | OtherError string
  | SystemExit
  | KeyboardInterrupt
  | GeneratorExit

fun is_ImportError :: "exn \<Rightarrow> bool" where
  "is_ImportError ImportError = True"
| "is_ImportError ModuleNotFoundError = True"
| "is_ImportError _ = False"

fun is_Exception :: "exn \<Rightarrow> bool" where
  "is_Exception SystemExit = False"
| "is_Exception KeyboardInterrupt = False"
| "is_Exception GeneratorExit = False"
| "is_Exception _ = True"

text \<open>The import machinery is external: \<open>scrapy.utils.misc.walk_modules\<close> returns the list
  of modules under a root or raises, \<open>importlib.import_module\<close> returns a module or raises.
  So is the warnings filter: when it turns a RuntimeWarning into an error
  (\<open>warnings_error\<close>, as under \<open>python -W error\<close>), \<open>warnings.warn\<close> raises
  the warning instead of reporting it.\<close>

record world =
  walk_modules :: "string \<Rightarrow> exn + pymodule list"
  import_module :: "string \<Rightarrow> exn + pymodule"
  warnings_error :: bool

text \<open>What the registry does to the outside: calls of the import machinery and warnings.\<close>

datatype event =
    Walk string
  | Import string
  | WarnCouldNotLoad string
  | WarnNotFound "string option"

text \<open>A Python \<open>dict\<close> is an association list in insertion order: assigning to a present key
  replaces the value in place, assigning to a new key appends (\<open>AList.update\<close>).
  \<open>dict_get\<close> is \<open>d.get(k)\<close>; \<open>dd_get\<close> and \<open>dd_append\<close> are \<open>d[k]\<close> and
  \<open>d[k].append(x)\<close> on a \<open>defaultdict(list)\<close>.\<close>

definition dict_get :: "(string \<times> pyobj) list \<Rightarrow> string \<Rightarrow> pyobj" where
  "dict_get d k = (case map_of d k of None \<Rightarrow> PyNone | Some v \<Rightarrow> v)"

definition dd_get :: "(string \<times> 'a list) list \<Rightarrow> string \<Rightarrow> 'a list" where
  "dd_get d k = (case map_of d k of None \<Rightarrow> [] | Some xs \<Rightarrow> xs)"

definition dd_append :: "(string \<times> 'a list) list \<Rightarrow> string \<Rightarrow> 'a \<Rightarrow> (string \<times> 'a list) list" where
  "dd_append d k x = AList.update k (dd_get d k @ [x]) d"

text \<open>\<open>name.rsplit('.', 1)\<close> unpacked into two names: the text before and after the last
  dot; with no dot the unpacking raises ValueError (\<open>None\<close> here).\<close>

definition rsplit_dot :: "string \<Rightarrow> (string \<times> string) option" where
  "rsplit_dot s =
     (if CHR ''.'' \<in> set s
      then Some (rev (tl (dropWhile (\<lambda>c. c \<noteq> CHR ''.'') (rev s))),
                 rev (takeWhile (\<lambda>c. c \<noteq> CHR ''.'') (rev s)))
      else None)"

section \<open>The registry\<close>

text \<open>The attributes of an \<open>ItemClassLoader\<close> instance. \<open>warn_only\<close> is read by
  \<open>_load_all_items\<close> but assigned nowhere in the class: \<open>None\<close> is the attribute being
  absent, \<open>Some b\<close> a value put on the instance from outside. \<open>trace\<close> is not an attribute:
  it records the calls of the import machinery and the warnings, in order.\<close>

record registry =
  found :: "(string \<times> (string \<times> string) list) list"
  items :: "(string \<times> pyobj) list"
  item_modules :: "string list"
  loaded :: bool
  warn_only :: "bool option"
  trace :: "event list"

record settings =
  ITEM_MODULES :: "string list option"
  BOT_NAME :: "string option"

type_synonym 'a result = "(exn + 'a) \<times> registry"

definition iter_item_classes :: "pymodule \<Rightarrow> pyobj list" where
  "iter_item_classes module =
     filter (\<lambda>obj. isclass obj \<and> issubclass_Item obj \<and> cls_module obj = mod_name module)
       (map snd (mod_vars module))"

text \<open>\<open>__init\<close>: the state a constructor call starts from.\<close>

definition init :: "settings \<Rightarrow> registry" where
  "init s = \<lparr> found = [], items = [],
              item_modules = (case ITEM_MODULES s of None \<Rightarrow> [] | Some ms \<Rightarrow> ms),
              loaded = False, warn_only = None, trace = [] \<rparr>"

text \<open>The body of the loop of \<open>_load_items\<close>, and the loop.\<close>

definition load_item :: "string \<Rightarrow> registry \<Rightarrow> pyobj \<Rightarrow> registry" where
  "load_item mname st spcls =
     st\<lparr> found := dd_append (found st) (cls_name spcls) (mname, cls_name spcls),
         items := AList.update (cls_name spcls) spcls (items st) \<rparr>"

definition load_items :: "registry \<Rightarrow> pymodule \<Rightarrow> registry" where
  "load_items st module = foldl (load_item (mod_name module)) st (iter_item_classes module)"

text \<open>The loop of \<open>_load_all_items\<close> over the roots. An ImportError of the walker is
  handled by reading \<open>self.warn_only\<close>: absent, the read raises AttributeError; true, a
  warning is issued and the loop goes on, unless \<open>warnings.warn\<close> raises; false, the
  ImportError is raised again. Any other exception propagates.\<close>

fun load_roots :: "world \<Rightarrow> string list \<Rightarrow> registry \<Rightarrow> unit result" where
  "load_roots w [] st = (Inr (), st)"
| "load_roots w (name # names) st =
     (let st1 = st\<lparr>trace := trace st @ [Walk name]\<rparr> in
      case walk_modules w name of
        Inr mods \<Rightarrow> load_roots w names (foldl load_items st1 mods)
      | Inl e \<Rightarrow>
          if is_ImportError e then
            (case warn_only st1 of
               None \<Rightarrow> (Inl AttributeError, st1)
             | Some b \<Rightarrow>
                 if b then
                   (if warnings_error w then (Inl RuntimeWarning, st1)
                    else load_roots w names (st1\<lparr>trace := trace st1 @ [WarnCouldNotLoad name]\<rparr>))
                 else (Inl e, st1))
          else (Inl e, st1))"

definition load_all_items :: "world \<Rightarrow> registry \<Rightarrow> string option \<Rightarrow> unit result" where
  "load_all_items w st extra =
     (let st1 = (if name_truthy extra then st\<lparr>item_modules := item_modules st @ [the extra]\<rparr> else st)
      in case load_roots w (item_modules st1) st1 of
           (Inl e, st2) \<Rightarrow> (Inl e, st2)
         | (Inr u, st2) \<Rightarrow> (Inr (), st2\<lparr>loaded := True\<rparr>))"

text \<open>The constructor, given the settings object it ends up with. \<open>BOT_NAME\<close> missing
  makes \<open>None + ".items"\<close> raise TypeError.\<close>

definition ItemClassLoader :: "world \<Rightarrow> bool \<Rightarrow> settings \<Rightarrow> unit result" where
  "ItemClassLoader w lazy_load s =
     (if \<not> lazy_load then
        (case BOT_NAME s of
           None \<Rightarrow> (Inl TypeError, init s)
         | Some bot_name \<Rightarrow> load_all_items w (init s) (Some (bot_name @ ''.items'')))
      else (Inr (), init s))"

definition list_names :: "world \<Rightarrow> registry \<Rightarrow> string list result" where
  "list_names w st =
     (if \<not> loaded st then
        (case load_all_items w st None of
           (Inl e, st1) \<Rightarrow> (Inl e, st1)
         | (Inr u, st1) \<Rightarrow> (Inr (map fst (items st1)), st1))
      else (Inr (map fst (items st)), st))"

definition get :: "world \<Rightarrow> registry \<Rightarrow> string option \<Rightarrow> pyobj result" where
  "get w st name =
     (if \<not> name_truthy name then (Inr PyNone, st)
      else if \<not> loaded st then
        (case load_all_items w st None of
           (Inl e, st1) \<Rightarrow> (Inl e, st1)
         | (Inr u, st1) \<Rightarrow> (Inr (dict_get (items st1) (the name)), st1))
      else (Inr (dict_get (items st) (the name)), st))"

text \<open>The body of the \<open>try\<close> of \<open>load\<close>, then \<open>load\<close>. The handler is
  \<open>except (ImportError, ModuleNotFoundError, Exception)\<close>: it takes the exceptions derived
  from \<open>Exception\<close>, warns and falls off the end of the function, returning \<open>None\<close>; when
  \<open>warnings.warn\<close> raises, the RuntimeWarning leaves \<open>load\<close>. An exception that is not
  derived from \<open>Exception\<close> is not handled and leaves \<open>load\<close> as well.\<close>

definition load_body :: "world \<Rightarrow> registry \<Rightarrow> string option \<Rightarrow> pyobj result" where
  "load_body w st name =
     (case get w st name of
        (Inl e, st1) \<Rightarrow> (Inl e, st1)
      | (Inr cls, st1) \<Rightarrow>
          if \<not> truthy cls \<and> name_truthy name then
            (case rsplit_dot (the name) of
               None \<Rightarrow> (Inl ValueError, st1)
             | Some (module, attr) \<Rightarrow>
                 (let st2 = st1\<lparr>trace := trace st1 @ [Import module]\<rparr> in
                  case import_module w module of
                    Inl e \<Rightarrow> (Inl e, st2)
                  | Inr md \<Rightarrow>
                      (case getattr md attr of
                         None \<Rightarrow> (Inl AttributeError, st2)
                       | Some cls' \<Rightarrow>
                           if truthy cls' \<and> isclass cls'
                           then (Inr cls', st2\<lparr>items := AList.update (the name) cls' (items st2)\<rparr>)
                           else (Inr cls', st2))))
          else (Inr cls, st1))"

definition load :: "world \<Rightarrow> registry \<Rightarrow> string option \<Rightarrow> pyobj result" where
  "load w st name =
     (case load_body w st name of
        (Inl e, st1) \<Rightarrow>
          if is_ImportError e \<or> is_Exception e then
            (if warnings_error w then (Inl RuntimeWarning, st1)
             else (Inr PyNone, st1\<lparr>trace := trace st1 @ [WarnNotFound name]\<rparr>))
          else (Inl e, st1)
      | (Inr cls, st1) \<Rightarrow> (Inr cls, st1))"


section \<open>Sequences of calls\<close>

text \<open>The public operations, with \<open>discoverAll\<close> for \<open>_load_all_items\<close>; \<open>step\<close> is the
  registry after one call (whether the call returned or raised), \<open>run\<close> after a sequence
  of calls.\<close>

datatype op = DiscoverAll "string option" | ListNames | Get "string option" | Load "string option"

fun step :: "world \<Rightarrow> registry \<Rightarrow> op \<Rightarrow> registry" where
  "step w st (DiscoverAll extra) = snd (load_all_items w st extra)"
| "step w st ListNames = snd (list_names w st)"
| "step w st (Get name) = snd (get w st name)"
| "step w st (Load name) = snd (load w st name)"

definition run :: "world \<Rightarrow> registry \<Rightarrow> op list \<Rightarrow> registry" where
  "run w st ops = foldl (step w) st ops"

text \<open>The argument of the \<open>_load_all_items\<close> call that an operation makes on a registry
  that is not loaded yet, if it makes one.\<close>

fun discovery_of :: "op \<Rightarrow> string option option" where
  "discovery_of (DiscoverAll extra) = Some extra"
| "discovery_of ListNames = Some None"
| "discovery_of (Get name) = (if name_truthy name then Some None else None)"
| "discovery_of (Load name) = (if name_truthy name then Some None else None)"


section \<open>Notions used to state the properties\<close>

text \<open>\<open>self._items[c.__name__] = c\<close> on the dictionary alone.\<close>

definition put_class :: "(string \<times> pyobj) list \<Rightarrow> pyobj \<Rightarrow> (string \<times> pyobj) list" where
  "put_class d c = AList.update (cls_name c) c d"

text \<open>A root is tolerated when the walker lists it, or fails with an ImportError while
  \<open>warn_only\<close> is set and true and warnings are not errors. \<open>scanned\<close> is the sequence of modules that the loop of
  \<open>_load_all_items\<close> hands to \<open>_load_items\<close>: it ends at the first root that is not
  tolerated. \<open>all_modules\<close> lists what the walker yields for every root, in root order and
  then walk order.\<close>

definition walk_tolerated :: "world \<Rightarrow> bool option \<Rightarrow> string \<Rightarrow> bool" where
  "walk_tolerated w wo r =
     (case walk_modules w r of
        Inr mods \<Rightarrow> True
      | Inl e \<Rightarrow> is_ImportError e \<and> wo = Some True \<and> \<not> warnings_error w)"

fun scanned :: "world \<Rightarrow> bool option \<Rightarrow> string list \<Rightarrow> pymodule list" where
  "scanned w wo [] = []"
| "scanned w wo (r # rs) =
     (case walk_modules w r of
        Inr mods \<Rightarrow> mods @ scanned w wo rs
      | Inl e \<Rightarrow>
          if is_ImportError e \<and> wo = Some True \<and> \<not> warnings_error w then scanned w wo rs
          else [])"

definition all_modules :: "world \<Rightarrow> string list \<Rightarrow> pymodule list" where
  "all_modules w rs =
     concat (map (\<lambda>r. case walk_modules w r of Inr mods \<Rightarrow> mods | Inl e \<Rightarrow> []) rs)"

text \<open>The classes of short name \<open>k\<close> that discovery takes from a sequence of modules, in
  scan order.\<close>

definition classes_named :: "string \<Rightarrow> pymodule list \<Rightarrow> pyobj list" where
  "classes_named k ms = filter (\<lambda>c. cls_name c = k) (concat (map iter_item_classes ms))"


section \<open>A project to run the code on\<close>

text \<open>The package \<open>shop.items\<close> has one module, which imports \<open>Item\<close>, defines the item
  class \<open>Product\<close>, a class \<open>Helper\<close> that is no item, and a constant. The package
  \<open>legacy.items\<close> has a module with an item class of the same short name \<open>Product\<close>.
  The package \<open>broken.items\<close> holds a syntax error, and the top-level code of the module
  \<open>exits.boom\<close> calls \<open>sys.exit\<close>; any other name does not exist. Warnings are
  reported, not raised.\<close>

definition product_module :: pymodule where
  "product_module =
     \<lparr> mod_name = ''shop.items.product'',
       mod_vars = [(''Item'', PyClass 0 ''Item'' ''scrapy.item'' True),
                   (''Product'', PyClass 1 ''Product'' ''shop.items.product'' True),
                   (''Helper'', PyClass 2 ''Helper'' ''shop.items.product'' False),
                   (''DEFAULT_CURRENCY'', PyOther 3 True)] \<rparr>"

definition legacy_module :: pymodule where
  "legacy_module =
     \<lparr> mod_name = ''legacy.items.product'',
       mod_vars = [(''Product'', PyClass 4 ''Product'' ''legacy.items.product'' True)] \<rparr>"

definition shop_world :: world where
  "shop_world =
     \<lparr> walk_modules = (\<lambda>r.
         if r = ''shop.items'' then Inr [product_module]
         else if r = ''legacy.items'' then Inr [legacy_module]
         else if r = ''broken.items'' then Inl (OtherError ''SyntaxError'')
         else Inl ModuleNotFoundError),
       import_module = (\<lambda>m.
         if m = ''shop.items.product'' then Inr product_module
         else if m = ''legacy.items.product'' then Inr legacy_module
         else if m = ''exits.boom'' then Inl SystemExit
         else Inl ModuleNotFoundError),
       warnings_error = False \<rparr>"

definition shop_settings :: settings where
  "shop_settings = \<lparr> ITEM_MODULES = Some [''shop.items''], BOT_NAME = Some ''shop'' \<rparr>"

definition two_shops_settings :: settings where
  "two_shops_settings =
     \<lparr> ITEM_MODULES = Some [''shop.items'', ''legacy.items''], BOT_NAME = Some ''shop'' \<rparr>"

definition missing_root_settings :: settings where
  "missing_root_settings =
     \<lparr> ITEM_MODULES = Some [''shop.items'', ''missing.items''], BOT_NAME = Some ''shop'' \<rparr>"

definition broken_root_settings :: settings where
  "broken_root_settings = \<lparr> ITEM_MODULES = Some [''broken.items''], BOT_NAME = Some ''shop'' \<rparr>"

lemmas shop_defs =
  shop_world_def product_module_def legacy_module_def shop_settings_def two_shops_settings_def
  missing_root_settings_def broken_root_settings_def init_def

lemmas registry_defs =
  load_def load_body_def get_def list_names_def load_all_items_def load_items_def load_item_def
  iter_item_classes_def rsplit_dot_def getattr_def dd_append_def dd_get_def dict_get_def

section \<open>The dictionary of classes\<close>

lemma map_of_put_class:
  "map_of (put_class d c) k = (if cls_name c = k then Some c else map_of d k)"
  by (simp add: put_class_def update_conv')

lemma map_of_foldl_put_class:
  "map_of (foldl put_class d cs) k =
     (if filter (\<lambda>c. cls_name c = k) cs = [] then map_of d k
      else Some (last (filter (\<lambda>c. cls_name c = k) cs)))"
  by (induction cs arbitrary: d) (simp_all add: map_of_put_class)

lemma distinct_foldl_put_class:
  "distinct (map fst d) \<Longrightarrow> distinct (map fst (foldl put_class d cs))"
  by (induction cs arbitrary: d) (simp_all add: put_class_def distinct_update)

text \<open>Writes to the first key of a dictionary stay at the head; the other writes pass
  to the rest.\<close>

lemma foldl_put_class_Cons:
  "foldl put_class ((k0, v0) # ps) cs =
     (k0, last (v0 # filter (\<lambda>c. cls_name c = k0) cs))
       # foldl put_class ps (filter (\<lambda>c. cls_name c \<noteq> k0) cs)"
proof (induction cs arbitrary: v0 ps)
  case Nil
  show ?case by simp
next
  case (Cons c cs)
  show ?case
  proof (cases "cls_name c = k0")
    case True
    then have "put_class ((k0, v0) # ps) c = (k0, c) # ps"
      by (simp add: put_class_def)
    with True Cons.IH [of c ps] show ?thesis by simp
  next
    case False
    then have "put_class ((k0, v0) # ps) c = (k0, v0) # put_class ps c"
      by (auto simp add: put_class_def)
    with False Cons.IH [of v0 "put_class ps c"] show ?thesis by simp
  qed
qed

text \<open>Replaying a sequence of writes changes nothing: every key is there already, at its
  place, and ends with the value of its last write.\<close>

lemma foldl_put_class_twice:
  "foldl put_class (foldl put_class d cs) cs = foldl put_class d cs"
proof (induction "length d + length cs" arbitrary: d cs rule: less_induct)
  case less
  show ?case
  proof (cases d)
    case (Cons p ps)
    obtain k0 v0 where p: "p = (k0, v0)" by (cases p)
    let ?cs = "filter (\<lambda>c. cls_name c \<noteq> k0) cs"
    have "length ps + length ?cs < length d + length cs"
      using Cons by (simp add: less_Suc_eq_le)
    then have "foldl put_class (foldl put_class ps ?cs) ?cs = foldl put_class ps ?cs"
      by (rule less.hyps)
    then show ?thesis
      unfolding Cons p foldl_put_class_Cons by simp
  next
    case dNil: Nil
    show ?thesis
    proof (cases cs)
      case Nil
      then show ?thesis by simp
    next
      case (Cons c cs')
      let ?k = "cls_name c"
      let ?cs = "filter (\<lambda>x. cls_name x \<noteq> ?k) cs'"
      have "length ([] :: (string \<times> pyobj) list) + length ?cs < length d + length cs"
        using dNil Cons by (simp add: less_Suc_eq_le)
      then have ih: "foldl put_class (foldl put_class [] ?cs) ?cs = foldl put_class [] ?cs"
        by (rule less.hyps)
      have start: "foldl put_class [] (c # cs') = foldl put_class [(?k, c)] cs'"
        by (simp add: put_class_def)
      show ?thesis
        unfolding dNil Cons start foldl_put_class_Cons using ih by simp
    qed
  qed
qed

lemma dd_get_dd_append:
  "dd_get (dd_append d k x) k' = (if k = k' then dd_get d k @ [x] else dd_get d k')"
  by (simp add: dd_get_def dd_append_def update_conv')

section \<open>What discovery changes\<close>

lemma load_item_frame [simp]:
  "items (load_item mn st c) = put_class (items st) c"
  "item_modules (load_item mn st c) = item_modules st"
  "loaded (load_item mn st c) = loaded st"
  "warn_only (load_item mn st c) = warn_only st"
  "trace (load_item mn st c) = trace st"
  by (simp_all add: load_item_def put_class_def)

lemma foldl_load_item_frame [simp]:
  "items (foldl (load_item mn) st cs) = foldl put_class (items st) cs"
  "item_modules (foldl (load_item mn) st cs) = item_modules st"
  "loaded (foldl (load_item mn) st cs) = loaded st"
  "warn_only (foldl (load_item mn) st cs) = warn_only st"
  "trace (foldl (load_item mn) st cs) = trace st"
  by (induction cs arbitrary: st) simp_all

lemma found_load_item:
  "dd_get (found (load_item mn st c)) k =
     (if cls_name c = k then dd_get (found st) k @ [(mn, k)] else dd_get (found st) k)"
  by (simp add: load_item_def dd_get_dd_append)

lemma found_foldl_load_item:
  "dd_get (found (foldl (load_item mn) st cs)) k =
     dd_get (found st) k @ map (\<lambda>c. (mn, k)) (filter (\<lambda>c. cls_name c = k) cs)"
  by (induction cs arbitrary: st) (simp_all add: found_load_item)

lemma load_items_frame [simp]:
  "items (load_items st m) = foldl put_class (items st) (iter_item_classes m)"
  "item_modules (load_items st m) = item_modules st"
  "loaded (load_items st m) = loaded st"
  "warn_only (load_items st m) = warn_only st"
  "trace (load_items st m) = trace st"
  by (simp_all add: load_items_def)

lemma foldl_load_items_frame [simp]:
  "items (foldl load_items st ms) = foldl put_class (items st) (concat (map iter_item_classes ms))"
  "item_modules (foldl load_items st ms) = item_modules st"
  "loaded (foldl load_items st ms) = loaded st"
  "warn_only (foldl load_items st ms) = warn_only st"
  "trace (foldl load_items st ms) = trace st"
  by (induction ms arbitrary: st) simp_all

lemma load_roots_frame:
  "item_modules (snd (load_roots w rs st)) = item_modules st \<and>
   loaded (snd (load_roots w rs st)) = loaded st \<and>
   warn_only (snd (load_roots w rs st)) = warn_only st"
  by (induction rs arbitrary: st) (simp_all add: Let_def split: sum.splits option.splits)

lemma load_roots_items:
  "items (snd (load_roots w rs st)) =
     foldl put_class (items st) (concat (map iter_item_classes (scanned w (warn_only st) rs)))"
  by (induction rs arbitrary: st) (simp_all add: Let_def split: sum.splits option.splits)

lemma load_roots_complete:
  "fst (load_roots w rs st) = Inr () \<longleftrightarrow> list_all (walk_tolerated w (warn_only st)) rs"
  by (induction rs arbitrary: st)
    (auto simp add: Let_def walk_tolerated_def split: sum.splits option.splits)

lemma scanned_complete:
  "list_all (walk_tolerated w wo) rs \<Longrightarrow> scanned w wo rs = all_modules w rs"
  by (induction rs) (auto simp add: walk_tolerated_def all_modules_def split: sum.splits)

lemma load_roots_trace:
  "fst (load_roots w rs st) = Inr () \<Longrightarrow>
     set (trace st) \<union> Walk ` set rs \<subseteq> set (trace (snd (load_roots w rs st)))"
proof (induction rs arbitrary: st)
  case Nil
  then show ?case by simp
next
  case (Cons r rs)
  then show ?case
    by (fastforce simp add: Let_def split: sum.splits option.splits if_splits)
qed


section \<open>Lookup and fallback\<close>



lemma is_ImportError_Exception: "is_ImportError e \<Longrightarrow> is_Exception e"
  by (cases e) simp_all







text \<open>
  C10. \<open>get\<close> with an empty or absent name returns nothing at once and leaves the whole
  registry as it was: no lazy discovery (\<open>loaded\<close> keeps its value), no change of the index
  or of the occurrence log, no call of the import machinery. \<open>load\<close> with an empty or
  absent name does the same: no import, no change of the index, no warning.
\<close>

theorem get_load_empty_name_frame:
  "get w st None = (Inr PyNone, st) \<and> get w st (Some []) = (Inr PyNone, st) \<and>
   load w st None = (Inr PyNone, st) \<and> load w st (Some []) = (Inr PyNone, st)"
  by (simp add: get_def load_def load_body_def)






text \<open>
  C4, as the code behaves. The module \<open>shop.items.product\<close> imports and has the
  attribute \<open>DEFAULT_CURRENCY\<close>, which is not a class. \<open>load\<close> of that path returns the
  attribute's value, not nothing; it issues no warning; it does leave the index alone.
\<close>

theorem load_returns_non_class_attribute:
  "fst (load shop_world (init shop_settings) (Some ''shop.items.product.DEFAULT_CURRENCY''))
     = Inr (PyOther 3 True) \<and>
   \<not> isclass (PyOther 3 True) \<and>
   getattr product_module ''DEFAULT_CURRENCY'' = Some (PyOther 3 True) \<and>
   trace (snd (load shop_world (init shop_settings) (Some ''shop.items.product.DEFAULT_CURRENCY'')))
     = [Walk ''shop.items'', Import ''shop.items.product''] \<and>
   map fst (items (snd (load shop_world (init shop_settings) (Some ''shop.items.product.DEFAULT_CURRENCY''))))
     = [''Product'']"
  by (simp add: registry_defs shop_defs)

section \<open>Discovery\<close>

text \<open>\<open>__init\<close> never assigns \<open>warn_only\<close>, whatever the settings. On a registry
  as \<open>__init\<close> leaves it, with the roots \<open>shop.items\<close> and \<open>missing.items\<close>, handling
  the ImportError of the second reads the missing attribute and raises AttributeError.\<close>

lemma warn_only_never_assigned:
  "warn_only (init s) = None \<and>
   walk_modules shop_world ''missing.items'' = Inl ModuleNotFoundError \<and>
   fst (load_all_items shop_world (init missing_root_settings) None) = Inl AttributeError \<and>
   \<not> loaded (snd (load_all_items shop_world (init missing_root_settings) None)) \<and>
   fst (list_names shop_world (init missing_root_settings)) = Inl AttributeError \<and>
   fst (ItemClassLoader shop_world False missing_root_settings) = Inl AttributeError"
  by (simp add: registry_defs shop_defs ItemClassLoader_def)

lemma load_all_items_frame:
  "warn_only (snd (load_all_items w st extra)) = warn_only st"
  "item_modules (snd (load_all_items w st None)) = item_modules st"
  "loaded (snd (load_all_items w st extra)) = (loaded st \<or> fst (load_all_items w st extra) = Inr ())"
  using load_roots_frame [of w "item_modules st" st]
    load_roots_frame [of w "item_modules st @ [the extra]" "st\<lparr>item_modules := item_modules st @ [the extra]\<rparr>"]
  by (auto simp add: load_all_items_def Let_def split: prod.splits sum.splits)

lemma load_all_items_items:
  "items (snd (load_all_items w st None)) =
     foldl put_class (items st)
       (concat (map iter_item_classes (scanned w (warn_only st) (item_modules st))))"
  using load_roots_items [of w "item_modules st" st]
  by (auto simp add: load_all_items_def split: prod.splits sum.splits)

lemma load_all_items_complete:
  "fst (load_all_items w st None) = Inr () \<longleftrightarrow>
     list_all (walk_tolerated w (warn_only st)) (item_modules st)"
  using load_roots_complete [of w "item_modules st" st]
  by (auto simp add: load_all_items_def split: prod.splits sum.splits)







text \<open>
  C7. Of the top-level members of a scanned module, \<open>_load_items\<close> takes exactly those
  that are classes, derive from \<open>Item\<close> and have the scanned module's name as their
  \<open>__module__\<close>. For every short name \<open>k\<close>, the occurrence log under \<open>k\<close> grows by one
  entry (module name, \<open>k\<close>) for each such member named \<open>k\<close> and by nothing else, and the index
  under \<open>k\<close> becomes the last such member named \<open>k\<close>, or keeps its entry when there is none.
\<close>

theorem load_items_takes_local_item_classes:
  "(obj \<in> set (iter_item_classes m) \<longleftrightarrow>
      obj \<in> snd ` set (mod_vars m) \<and> isclass obj \<and> issubclass_Item obj \<and> cls_module obj = mod_name m) \<and>
   dd_get (found (load_items st m)) k
     = dd_get (found st) k @ map (\<lambda>c. (mod_name m, k)) (filter (\<lambda>c. cls_name c = k) (iter_item_classes m)) \<and>
   map_of (items (load_items st m)) k
     = (if filter (\<lambda>c. cls_name c = k) (iter_item_classes m) = [] then map_of (items st) k
        else Some (last (filter (\<lambda>c. cls_name c = k) (iter_item_classes m))))"
proof (intro conjI)
  show "obj \<in> set (iter_item_classes m) \<longleftrightarrow>
      obj \<in> snd ` set (mod_vars m) \<and> isclass obj \<and> issubclass_Item obj \<and> cls_module obj = mod_name m"
    by (auto simp add: iter_item_classes_def)
  show "dd_get (found (load_items st m)) k
     = dd_get (found st) k @ map (\<lambda>c. (mod_name m, k)) (filter (\<lambda>c. cls_name c = k) (iter_item_classes m))"
    by (simp add: load_items_def found_foldl_load_item)
  show "map_of (items (load_items st m)) k
     = (if filter (\<lambda>c. cls_name c = k) (iter_item_classes m) = [] then map_of (items st) k
        else Some (last (filter (\<lambda>c. cls_name c = k) (iter_item_classes m))))"
    by (simp add: map_of_foldl_put_class)
qed

theorem load_items_takes_local_item_classes_witness:
  "iter_item_classes product_module = [PyClass 1 ''Product'' ''shop.items.product'' True] \<and>
   found (load_items (init shop_settings) product_module)
     = [(''Product'', [(''shop.items.product'', ''Product'')])] \<and>
   items (load_items (init shop_settings) product_module)
     = [(''Product'', PyClass 1 ''Product'' ''shop.items.product'' True)] \<and>
   map_of (items (load_items (init shop_settings) product_module)) ''Helper'' = None"
  using load_items_takes_local_item_classes
    [of "PyClass 1 ''Product'' ''shop.items.product'' True" product_module "init shop_settings" "''Helper''"]
  by (simp add: registry_defs shop_defs)

text \<open>
  C6. Running discovery a second time, with no extra root and the same import machinery,
  leaves the index exactly as the first run left it, key order included. This holds from
  any registry and also when discovery raises.
\<close>

theorem discovery_idempotent:
  "items (snd (load_all_items w (snd (load_all_items w st None)) None))
     = items (snd (load_all_items w st None))"
  by (simp add: load_all_items_items load_all_items_frame foldl_put_class_twice)

text \<open>
  C8. When every configured root is tolerated (listed by the walker, or failing with an
  ImportError under a true \<open>warn_only\<close>), discovery returns without an exception, the keys
  of the index stay unique, and every short name that some scanned module defines maps to
  the last class of that name in scan order (roots in list order, modules in walk order,
  members in namespace order): a later module silently replaces the entry of an earlier one.
\<close>

theorem last_scanned_class_wins:
  assumes "list_all (walk_tolerated w (warn_only st)) (item_modules st)"
    and "distinct (map fst (items st))"
  shows "fst (load_all_items w st None) = Inr () \<and>
         distinct (map fst (items (snd (load_all_items w st None)))) \<and>
         (classes_named k (all_modules w (item_modules st)) \<noteq> [] \<longrightarrow>
            map_of (items (snd (load_all_items w st None))) k
              = Some (last (classes_named k (all_modules w (item_modules st)))))"
  using assms
  by (simp add: load_all_items_complete load_all_items_items scanned_complete
      distinct_foldl_put_class map_of_foldl_put_class classes_named_def)

theorem last_scanned_class_wins_witness:
  "classes_named ''Product'' (all_modules shop_world (item_modules (init two_shops_settings)))
     = [PyClass 1 ''Product'' ''shop.items.product'' True,
        PyClass 4 ''Product'' ''legacy.items.product'' True] \<and>
   fst (load_all_items shop_world (init two_shops_settings) None) = Inr () \<and>
   map_of (items (snd (load_all_items shop_world (init two_shops_settings) None))) ''Product''
     = Some (PyClass 4 ''Product'' ''legacy.items.product'' True)"
  using last_scanned_class_wins [of shop_world "init two_shops_settings" "''Product''"]
  by (simp add: registry_defs shop_defs walk_tolerated_def all_modules_def classes_named_def)

section \<open>Lazy discovery and the loaded flag\<close>

lemma get_loaded:
  "loaded (snd (get w st name)) =
     (loaded st \<or> (name_truthy name \<and> fst (load_all_items w st None) = Inr ()))"
  using load_all_items_frame(3) [of w st None]
  by (auto simp add: get_def split: prod.splits sum.splits)

lemma list_names_loaded:
  "loaded (snd (list_names w st)) = (loaded st \<or> fst (load_all_items w st None) = Inr ())"
  using load_all_items_frame(3) [of w st None]
  by (auto simp add: list_names_def split: prod.splits sum.splits)

lemma load_body_loaded: "loaded (snd (load_body w st name)) = loaded (snd (get w st name))"
proof (cases "get w st name")
  case (Pair r st1)
  show ?thesis
  proof (cases r)
    case (Inl e)
    with Pair show ?thesis by (simp add: load_body_def)
  next
    case (Inr v)
    with Pair show ?thesis
      by (simp add: load_body_def Let_def split: option.splits sum.splits prod.splits)
  qed
qed

lemma load_loaded: "loaded (snd (load w st name)) = loaded (snd (get w st name))"
  using load_body_loaded [of w st name]
  by (cases "load_body w st name") (auto simp add: load_def split: sum.splits)

lemma step_loaded:
  "loaded (step w st op) =
     (loaded st \<or> (\<exists>extra. discovery_of op = Some extra \<and> fst (load_all_items w st extra) = Inr ()))"
  by (cases op) (simp_all add: load_all_items_frame(3) list_names_loaded get_loaded load_loaded)

lemma run_loaded: "loaded st \<Longrightarrow> loaded (run w st ops)"
  unfolding run_def by (induction ops arbitrary: st) (simp_all add: step_loaded)

lemma load_all_items_walks_every_root:
  assumes "fst (load_all_items w st extra) = Inr ()"
  shows "Walk ` set (item_modules (snd (load_all_items w st extra)))
           \<subseteq> set (trace (snd (load_all_items w st extra)))"
proof -
  define st1 where
    "st1 = (if name_truthy extra then st\<lparr>item_modules := item_modules st @ [the extra]\<rparr> else st)"
  from assms have c: "fst (load_roots w (item_modules st1) st1) = Inr ()"
    by (auto simp add: load_all_items_def st1_def Let_def split: prod.splits sum.splits)
  have "item_modules (snd (load_all_items w st extra)) = item_modules st1"
    using load_roots_frame [of w "item_modules st1" st1]
    by (auto simp add: load_all_items_def st1_def Let_def split: prod.splits sum.splits)
  moreover have "trace (snd (load_all_items w st extra)) = trace (snd (load_roots w (item_modules st1) st1))"
    by (auto simp add: load_all_items_def st1_def Let_def split: prod.splits sum.splits)
  ultimately show ?thesis
    using load_roots_trace [OF c] by simp
qed




text \<open>
  C9. The loaded flag is false after \<open>__init\<close>. Once true it is true after any sequence
  of \<open>discoverAll\<close>, \<open>list\<close>, \<open>get\<close> and \<open>load\<close> calls, raising ones included. On a
  registry that is not loaded, a call makes it true exactly when the call runs
  \<open>_load_all_items\<close> and that run completes; and a run that completes has set the flag and
  has asked the walker for every configured root, the extra one included.
\<close>

theorem loaded_flag_one_way:
  "\<not> loaded (init s) \<and>
   (loaded sta \<longrightarrow> loaded (run w sta ops)) \<and>
   (\<not> loaded stb \<longrightarrow>
      (loaded (step w stb op) \<longleftrightarrow>
         (\<exists>extra. discovery_of op = Some extra \<and> fst (load_all_items w stb extra) = Inr ()))) \<and>
   (fst (load_all_items w stc extra) = Inr () \<longrightarrow>
      loaded (snd (load_all_items w stc extra)) \<and>
      Walk ` set (item_modules (snd (load_all_items w stc extra)))
        \<subseteq> set (trace (snd (load_all_items w stc extra))))"
  using load_all_items_walks_every_root [of w stc extra]
  by (simp add: run_loaded step_loaded load_all_items_frame(3) init_def)

theorem loaded_flag_one_way_witness:
  "\<not> loaded (init shop_settings) \<and>
   loaded (step shop_world (init shop_settings) (Get (Some ''Product''))) \<and>
   \<not> loaded (step shop_world (init shop_settings) (Get (Some []))) \<and>
   \<not> loaded (step shop_world (init broken_root_settings) ListNames) \<and>
   loaded (run shop_world (step shop_world (init shop_settings) ListNames)
     [Load (Some ''no.such.Thing''), DiscoverAll (Some ''broken.items''), Get None, ListNames]) \<and>
   fst (load_all_items shop_world (step shop_world (init shop_settings) ListNames) (Some ''broken.items''))
     = Inl (OtherError ''SyntaxError'')"
  using loaded_flag_one_way [of shop_settings "step shop_world (init shop_settings) ListNames"
      shop_world "[Load (Some ''no.such.Thing''), DiscoverAll (Some ''broken.items''), Get None, ListNames]"
      "init shop_settings" "Get (Some ''Product'')" "init shop_settings" None]
  by (simp add: registry_defs shop_defs run_def)

end
